theory Spec2Isabelle
  imports Complex_Main "HOL-Library.Sublist"
begin

section \<open>Data model of the visual annotation layer\<close>

text \<open>
  The component \<^verbatim>\<open>VisualAnnotationLayer\<close> overlays the issues found by the analysis step
  on the rendered asset.

  JavaScript numbers are modelled by the mathematical numbers they denote: a page number
  is an \<^typ>\<open>int\<close>, a percentage or a time in seconds is a \<^typ>\<open>real\<close> that stands for a
  finite double. Where a comparison of a computed number decides whether a marker is
  drawn (the window of three seconds around a timestamp), the operation is modelled with
  the rounding of IEEE 754 double precision. The positions that are only emitted (the
  anchor of a marker, the place of a tick) are given as the exact value of the expression
  the code evaluates. \<^verbatim>\<open>NaN\<close> and infinite inputs are outside this model. An optional
  field (\<^verbatim>\<open>field?: T\<close>) is an \<^typ>\<open>'a option\<close>, \<^verbatim>\<open>undefined\<close> being \<^const>\<open>None\<close>.
\<close>

text \<open>
  Modelled from the spec: the enumeration \<^verbatim>\<open>AssetType\<close> is declared in \<^verbatim>\<open>types.ts\<close>,
  which is not among the sources. Its five members are the ones the upload form assigns
  and the spec lists (Image, Video, Document, Presentation, Podcast).
\<close>

datatype AssetType = IMAGE | VIDEO | DOCUMENT | PRESENTATION | PODCAST

text \<open>
  Modelled from the spec: the interface \<^verbatim>\<open>Issue\<close> is declared in \<^verbatim>\<open>types.ts\<close>, which
  is not among the sources. The fields are the ones the component reads (\<^verbatim>\<open>id\<close>,
  \<^verbatim>\<open>category\<close>, \<^verbatim>\<open>severity\<close>, \<^verbatim>\<open>description\<close>, \<^verbatim>\<open>fix\<close>, \<^verbatim>\<open>boundingBox\<close>,
  \<^verbatim>\<open>page_number\<close>, \<^verbatim>\<open>timestamp\<close>), typed as in the spec's data model: a severity of
  Low, Medium or High, an optional bounding box \<^verbatim>\<open>{x, y, width, height}\<close> in percent, an
  optional integer page number and an optional timestamp in seconds.
\<close>

datatype Severity = Low | Medium | High

record BoundingBox =
  box_x :: real
  box_y :: real
  box_width :: real
  box_height :: real

record Issue =
  issue_id :: string
  category :: string
  severity :: Severity
  description :: string
  fix_text :: string
  boundingBox :: "BoundingBox option"
  page_number :: "int option"
  timestamp :: "real option"

record Slide =
  slide_data :: string
  slide_mimeType :: string

text \<open>The properties of the component (\<^verbatim>\<open>VisualAnnotationLayerProps\<close>).\<close>

record Props =
  assetType :: AssetType
  src :: string
  issues :: "Issue list"
  selectedIssueId :: "string option"
  htmlContent :: "string option"
  mimeType :: "string option"
  visualSlides :: "Slide list option"

text \<open>
  The component's own state (\<^verbatim>\<open>useState\<close>) and what its two refs hold:
  \<open>videoRef\<close> says whether the video element is mounted, \<open>pageRefs\<close> lists the page
  numbers that have a page element registered.
\<close>

record ViewState =
  currentTime :: real
  duration :: real
  hoveredMarkerId :: "string option"
  numPages :: nat
  videoRef :: bool
  pageRefs :: "int list"

text \<open>What is drawn for one issue on the asset: the badge with its number, at its anchor.\<close>

record Marker =
  key :: string
  centerX :: real
  centerY :: real
  badge :: int
  isSelected :: bool
  tooltip :: bool

text \<open>A tick on the seek bar of the video player.\<close>

record Tick =
  tick_key :: string
  tick_left :: real
  tick_tooltip :: bool

section \<open>Values as conditions\<close>

text \<open>
  A JavaScript condition holds of every value but \<^verbatim>\<open>undefined\<close>, \<^verbatim>\<open>null\<close>, \<^verbatim>\<open>0\<close>,
  \<^verbatim>\<open>NaN\<close>, the empty string and \<^verbatim>\<open>false\<close>.
\<close>

definition truthy_string :: "string option \<Rightarrow> bool" where
  "truthy_string v = (case v of None \<Rightarrow> False | Some s \<Rightarrow> s \<noteq> [])"

definition truthy_int :: "int option \<Rightarrow> bool" where
  "truthy_int v = (case v of None \<Rightarrow> False | Some n \<Rightarrow> n \<noteq> 0)"

definition truthy_real :: "real option \<Rightarrow> bool" where
  "truthy_real v = (case v of None \<Rightarrow> False | Some r \<Rightarrow> r \<noteq> 0)"

text \<open>\<^verbatim>\<open>Array.prototype.findIndex\<close>: the first index whose element passes, or \<open>-1\<close>.\<close>

fun findIndex :: "('a \<Rightarrow> bool) \<Rightarrow> 'a list \<Rightarrow> int" where
  "findIndex P [] = - 1"
| "findIndex P (x # xs) =
     (if P x then 0
      else (let r = findIndex P xs in if r < 0 then - 1 else r + 1))"

section \<open>Double-precision arithmetic\<close>

text \<open>
  The nearest integer, a tie going to the even one.
\<close>

definition roundHalfEven :: "real \<Rightarrow> int" where
  "roundHalfEven y =
     (let f = \<lfloor>y\<rfloor>; r = y - of_int f
      in if r < 1 / 2 then f
         else if 1 / 2 < r then f + 1
         else if even f then f else f + 1)"

text \<open>
  The result of an arithmetic operation on doubles is its exact result rounded to the
  nearest double, a tie going to the one with an even significand (IEEE 754, binary64,
  the only rounding of JavaScript). A double is \<open>m * 2 ^ q\<close> with an integer \<open>m\<close> of at
  most 53 bits and \<open>q\<close> not below \<open>-1074\<close>; for \<open>x\<close> with \<open>2 ^ e \<le> \<bar>x\<bar> < 2 ^ (e + 1)\<close> the
  doubles around \<open>x\<close> are \<open>2 ^ (e - 52)\<close> apart, and \<open>2 ^ (-1074)\<close> apart below the normal
  range. A result beyond the largest double is an infinity in JavaScript; here it is the
  rounded value of its binade, which compares with 3 as the infinity does.
\<close>

definition roundDouble :: "real \<Rightarrow> real" where
  "roundDouble x =
     (if x = 0 then 0
      else
        (let e = \<lfloor>log 2 \<bar>x\<bar>\<rfloor>;
             q = max (e - 52) (- 1074)
         in sgn x * (of_int (roundHalfEven (\<bar>x\<bar> / 2 powi q)) * 2 powi q)))"

section \<open>Render mode\<close>

definition isVideo :: "Props \<Rightarrow> bool" where
  "isVideo p =
     (assetType p = VIDEO \<or>
      (case mimeType p of None \<Rightarrow> False | Some m \<Rightarrow> prefix ''video/'' m))"

definition isPDF :: "Props \<Rightarrow> bool" where
  "isPDF p = (mimeType p = Some ''application/pdf'')"

definition hasVisualSlides :: "Props \<Rightarrow> bool" where
  "hasVisualSlides p =
     (case visualSlides p of None \<Rightarrow> False | Some sl \<Rightarrow> length sl > 0)"

definition useCarousel :: "Props \<Rightarrow> bool" where
  "useCarousel p = (isPDF p \<or> hasVisualSlides p)"

definition isDoc :: "Props \<Rightarrow> bool" where
  "isDoc p =
     (truthy_string (htmlContent p) \<or> assetType p = DOCUMENT \<or>
      assetType p = PRESENTATION \<or> isPDF p)"

section \<open>The annotation layers\<close>

text \<open>
  Each layer maps a function over the issues that returns \<^verbatim>\<open>null\<close> (here \<^const>\<open>None\<close>)
  for an issue that is not drawn, and the marker element otherwise.

  The annotation layer of page \<open>index + 1\<close> of a PDF.
\<close>

definition pdfPageMarker ::
  "Issue list \<Rightarrow> string option \<Rightarrow> string option \<Rightarrow> nat \<Rightarrow> Issue \<Rightarrow> Marker option" where
  "pdfPageMarker iss sel hov index issue =
     (let isPageMatch =
            (page_number issue = Some (int index + 1) \<or>
             (\<not> truthy_int (page_number issue) \<and> index = 0))
      in if \<not> isPageMatch then None
         else
           (let globalIndex = findIndex (\<lambda>x. issue_id x = issue_id issue) iss
            in case boundingBox issue of
                 None \<Rightarrow> None
               | Some box \<Rightarrow>
                   Some \<lparr>key = issue_id issue,
                         centerX = box_x box + box_width box / 2,
                         centerY = box_y box + box_height box / 2,
                         badge = globalIndex + 1,
                         isSelected = (sel = Some (issue_id issue)),
                         tooltip = (hov = Some (issue_id issue))\<rparr>))"

text \<open>The annotation layer of slide \<open>index + 1\<close> of a deck rendered as images.\<close>

definition slideMarker ::
  "Issue list \<Rightarrow> string option \<Rightarrow> string option \<Rightarrow> nat \<Rightarrow> Issue \<Rightarrow> Marker option" where
  "slideMarker iss sel hov index issue =
     (let isPageMatch =
            (page_number issue = Some (int index + 1) \<or>
             (\<not> truthy_int (page_number issue) \<and> index = 0))
      in if \<not> isPageMatch then None
         else
           (let globalIndex = findIndex (\<lambda>x. issue_id x = issue_id issue) iss
            in case boundingBox issue of
                 None \<Rightarrow> None
               | Some box \<Rightarrow>
                   Some \<lparr>key = issue_id issue,
                         centerX = box_x box + box_width box / 2,
                         centerY = box_y box + box_height box / 2,
                         badge = globalIndex + 1,
                         isSelected = (sel = Some (issue_id issue)),
                         tooltip = (hov = Some (issue_id issue))\<rparr>))"

text \<open>The floating annotations over a document rendered as HTML; they have no tooltip.\<close>

definition htmlMarker :: "Issue list \<Rightarrow> string option \<Rightarrow> Issue \<Rightarrow> Marker option" where
  "htmlMarker iss sel issue =
     (case boundingBox issue of
        None \<Rightarrow> None
      | Some box \<Rightarrow>
          (let globalIndex = findIndex (\<lambda>x. issue_id x = issue_id issue) iss
           in Some \<lparr>key = issue_id issue,
                    centerX = box_x box + box_width box / 2,
                    centerY = box_y box + box_height box / 2,
                    badge = globalIndex + 1,
                    isSelected = (sel = Some (issue_id issue)),
                    tooltip = False\<rparr>))"

text \<open>
  The overlay of the zoomable media mode, over an image or the video player. The
  difference \<^verbatim>\<open>currentTime - issue.timestamp\<close> is a double, the rounded difference of the
  two doubles; \<^verbatim>\<open>Math.abs\<close> and the comparison with 3.0 are exact.
\<close>

definition mediaMarker ::
  "bool \<Rightarrow> Issue list \<Rightarrow> string option \<Rightarrow> string option \<Rightarrow> real \<Rightarrow> Issue \<Rightarrow> Marker option" where
  "mediaMarker isVid iss sel hov now issue =
     (let selected = (sel = Some (issue_id issue));
          isVideoMatch =
            (isVid \<and>
             (selected \<or>
              (case timestamp issue of
                 None \<Rightarrow> False
               | Some ts \<Rightarrow> \<bar>roundDouble (now - ts)\<bar> < 3.0)))
      in if isVid \<and> \<not> isVideoMatch then None
         else
           (case boundingBox issue of
              None \<Rightarrow> None
            | Some box \<Rightarrow>
                (let globalIndex = findIndex (\<lambda>x. issue_id x = issue_id issue) iss
                 in Some \<lparr>key = issue_id issue,
                          centerX = box_x box + box_width box / 2,
                          centerY = box_y box + box_height box / 2,
                          badge = globalIndex + 1,
                          isSelected = selected,
                          tooltip = (selected \<or> hov = Some (issue_id issue))\<rparr>)))"

definition hasBox :: "Issue \<Rightarrow> bool" where
  "hasBox i = (boundingBox i \<noteq> None)"

text \<open>
  The layers that are rendered: one per page or slide in the carousel, one over an HTML
  document, an image or a video, none where the document has no preview. React draws
  nothing for \<^verbatim>\<open>null\<close>, so a layer holds the markers of the issues that have one.
\<close>

definition annotationLayers :: "Props \<Rightarrow> ViewState \<Rightarrow> Marker list list" where
  "annotationLayers p s =
     (if isDoc p then
        (if useCarousel p then
           (if isPDF p then
              map (\<lambda>index. List.map_filter
                     (pdfPageMarker (issues p) (selectedIssueId p) (hoveredMarkerId s) index)
                     (issues p))
                  [0 ..< numPages s]
            else
              map (\<lambda>index. List.map_filter
                     (slideMarker (issues p) (selectedIssueId p) (hoveredMarkerId s) index)
                     (issues p))
                  [0 ..< (case visualSlides p of None \<Rightarrow> 0 | Some sl \<Rightarrow> length sl)])
         else if truthy_string (htmlContent p) then
           (if length (filter hasBox (issues p)) > 0 then
              [List.map_filter (htmlMarker (issues p) (selectedIssueId p))
                 (filter hasBox (issues p))]
            else [])
         else [])
      else
        [List.map_filter
           (mediaMarker (isVideo p) (issues p) (selectedIssueId p) (hoveredMarkerId s)
              (currentTime s))
           (filter hasBox (issues p))])"

definition placedMarkers :: "Props \<Rightarrow> ViewState \<Rightarrow> Marker list" where
  "placedMarkers p s = concat (annotationLayers p s)"

text \<open>The ticks on the seek bar; the bar belongs to the video player.\<close>

definition timelineMarker :: "real \<Rightarrow> string option \<Rightarrow> Issue \<Rightarrow> Tick option" where
  "timelineMarker dur hov issue =
     (case timestamp issue of
        None \<Rightarrow> None
      | Some ts \<Rightarrow>
          Some \<lparr>tick_key = issue_id issue,
                tick_left = (ts / (if dur = 0 then 1 else dur)) * 100,
                tick_tooltip = (hov = Some (issue_id issue))\<rparr>)"

definition timelineMarkers :: "Props \<Rightarrow> ViewState \<Rightarrow> Tick list" where
  "timelineMarkers p s =
     (if \<not> isDoc p \<and> isVideo p then
        List.map_filter (timelineMarker (duration s) (hoveredMarkerId s)) (issues p)
      else [])"

section \<open>Selecting an issue\<close>

text \<open>
  What the component does to the page when an issue is selected, in order. The pause of
  200 ms between the seek and the callback is not modelled.
\<close>

datatype Action =
    SetCurrentTime real
  | Pause
  | OnIssueSelect string
  | ScrollIntoView int

definition handleSeekToIssue :: "Props \<Rightarrow> ViewState \<Rightarrow> Issue \<Rightarrow> Action list" where
  "handleSeekToIssue p s issue =
     (if isVideo p \<and> truthy_real (timestamp issue) \<and> videoRef s then
        (case timestamp issue of
           None \<Rightarrow> []
         | Some ts \<Rightarrow> [SetCurrentTime ts, Pause])
      else [])
     @ [OnIssueSelect (issue_id issue)]"

text \<open>The effect that runs when the selected issue changes.\<close>

definition selectionEffect :: "Props \<Rightarrow> ViewState \<Rightarrow> Action list" where
  "selectionEffect p s =
     (if truthy_string (selectedIssueId p) then
        (case find (\<lambda>i. Some (issue_id i) = selectedIssueId p) (issues p) of
           None \<Rightarrow> []
         | Some issue \<Rightarrow>
             if isVideo p then handleSeekToIssue p s issue
             else if useCarousel p then
               (let pageNum = (if truthy_int (page_number issue)
                               then (case page_number issue of Some n \<Rightarrow> n | None \<Rightarrow> 1)
                               else 1)
                in if pageNum \<in> set (pageRefs s) then [ScrollIntoView pageNum] else [])
             else [])
      else [])"

section \<open>Sample data\<close>

text \<open>
  Issues as the analysis step may return them: \<open>issue_a\<close> and \<open>issue_b\<close> sit on pages 1
  and 2, \<open>issue_c\<close> has no bounding box, \<open>issue_z\<close> has a page number of 0, a timestamp
  before the start and a box that leaves the frame, and \<open>issue_t\<close> is at the very start of
  a video. \<open>issue_far\<close> names a page that a document of three pages does not have.
\<close>

definition box_a :: BoundingBox where
  "box_a = \<lparr>box_x = 10, box_y = 10, box_width = 5, box_height = 5\<rparr>"

definition box_b :: BoundingBox where
  "box_b = \<lparr>box_x = 50, box_y = 50, box_width = 5, box_height = 5\<rparr>"

definition box_out :: BoundingBox where
  "box_out = \<lparr>box_x = 95, box_y = - 10, box_width = 20, box_height = 5\<rparr>"

definition issue_a :: Issue where
  "issue_a = \<lparr>issue_id = ''a'', category = ''Logo'', severity = High,
     description = ''Old logo'', fix_text = ''Replace'',
     boundingBox = Some box_a, page_number = Some 1, timestamp = None\<rparr>"

definition issue_b :: Issue where
  "issue_b = \<lparr>issue_id = ''b'', category = ''Tone'', severity = Medium,
     description = ''Informal'', fix_text = ''Rephrase'',
     boundingBox = Some box_b, page_number = Some 2, timestamp = Some 42.5\<rparr>"

definition issue_c :: Issue where
  "issue_c = \<lparr>issue_id = ''c'', category = ''Legal'', severity = Low,
     description = ''Disclaimer'', fix_text = ''Add'',
     boundingBox = None, page_number = None, timestamp = Some 10\<rparr>"

definition issue_z :: Issue where
  "issue_z = \<lparr>issue_id = ''z'', category = ''Color'', severity = Low,
     description = ''Palette'', fix_text = ''Recolor'',
     boundingBox = Some box_out, page_number = Some 0, timestamp = Some (- 1)\<rparr>"

definition issue_t :: Issue where
  "issue_t = \<lparr>issue_id = ''t'', category = ''Intro'', severity = High,
     description = ''Opening frame'', fix_text = ''Cut'',
     boundingBox = Some box_a, page_number = None, timestamp = Some 0\<rparr>"

definition pdfProps :: Props where
  "pdfProps = \<lparr>assetType = DOCUMENT, src = ''blob:doc'',
     issues = [issue_a, issue_b, issue_c, issue_z],
     selectedIssueId = None, htmlContent = None, mimeType = Some ''application/pdf'',
     visualSlides = None\<rparr>"

definition videoProps :: Props where
  "videoProps = \<lparr>assetType = VIDEO, src = ''blob:clip'',
     issues = [issue_t, issue_b, issue_c, issue_z],
     selectedIssueId = Some ''t'', htmlContent = None, mimeType = Some ''video/mp4'',
     visualSlides = None\<rparr>"

definition imageProps :: Props where
  "imageProps = \<lparr>assetType = IMAGE, src = ''blob:img'',
     issues = [issue_a, issue_b, issue_c, issue_z],
     selectedIssueId = None, htmlContent = None, mimeType = Some ''image/png'',
     visualSlides = None\<rparr>"

definition viewState0 :: ViewState where
  "viewState0 = \<lparr>currentTime = 41, duration = 60, hoveredMarkerId = None, numPages = 3,
     videoRef = True, pageRefs = [1, 2, 3]\<rparr>"

definition viewStateStart :: ViewState where
  "viewStateStart = \<lparr>currentTime = 0, duration = 0, hoveredMarkerId = None, numPages = 3,
     videoRef = True, pageRefs = [1, 2, 3]\<rparr>"

definition marker_b :: Marker where
  "marker_b = \<lparr>key = ''b'', centerX = 52.5, centerY = 52.5, badge = 2,
     isSelected = False, tooltip = False\<rparr>"

text \<open>
  The doubles that the literals 3.3 and 0.3 denote, and an issue at 0.3 s of a video that
  plays at 3.3 s.
\<close>

definition time_3_3 :: real where
  "time_3_3 = 3715469692580659 / 2 ^ 50"

definition time_0_3 :: real where
  "time_0_3 = 5404319552844595 / 2 ^ 54"

definition issue_w :: Issue where
  "issue_w = \<lparr>issue_id = ''w'', category = ''Caption'', severity = Medium,
     description = ''Subtitle'', fix_text = ''Retime'',
     boundingBox = Some box_a, page_number = None, timestamp = Some time_0_3\<rparr>"

definition videoEdgeProps :: Props where
  "videoEdgeProps = \<lparr>assetType = VIDEO, src = ''blob:clip'', issues = [issue_w],
     selectedIssueId = None, htmlContent = None, mimeType = Some ''video/mp4'',
     visualSlides = None\<rparr>"

definition viewStateEdge :: ViewState where
  "viewStateEdge = \<lparr>currentTime = time_3_3, duration = 60, hoveredMarkerId = None,
     numPages = 0, videoRef = True, pageRefs = []\<rparr>"

definition issue_far :: Issue where
  "issue_far = \<lparr>issue_id = ''f'', category = ''Font'', severity = Medium,
     description = ''Typeface'', fix_text = ''Swap'',
     boundingBox = Some box_b, page_number = Some 7, timestamp = Some (- 5)\<rparr>"

definition marker_z :: Marker where
  "marker_z = \<lparr>key = ''z'', centerX = 105, centerY = - 7.5, badge = 4,
     isSelected = False, tooltip = False\<rparr>"

lemmas mode_defs = isVideo_def isPDF_def hasVisualSlides_def useCarousel_def isDoc_def
  truthy_string_def

section \<open>Auxiliary facts\<close>

subsection \<open>Lists\<close>

lemma findIndex_ge: "- 1 \<le> findIndex P xs"
  by (induction xs) (auto simp: Let_def)

lemma findIndex_distinct:
  "distinct (map f xs) \<Longrightarrow> i < length xs \<Longrightarrow> findIndex (\<lambda>x. f x = f (xs ! i)) xs = int i"
proof (induction xs arbitrary: i)
  case Nil
  then show ?case by simp
next
  case (Cons a xs)
  show ?case
  proof (cases i)
    case 0
    then show ?thesis by simp
  next
    case (Suc j)
    with Cons.prems have j: "j < length xs" and d: "distinct (map f xs)"
      and na: "f a \<notin> f ` set xs"
      by auto
    from j na have "f a \<noteq> f (xs ! j)" by (metis imageI nth_mem)
    moreover have "findIndex (\<lambda>x. f x = f (xs ! j)) xs = int j"
      using Cons.IH [OF d j] .
    ultimately show ?thesis using Suc by (simp add: Let_def)
  qed
qed

lemma set_map_filter: "set (List.map_filter f xs) = {y. \<exists>x \<in> set xs. f x = Some y}"
  by (induction xs) (auto simp: List.map_filter_simps split: option.splits)

subsection \<open>Rounding to a double\<close>

lemma roundHalfEven_near: "\<bar>of_int (roundHalfEven y) - y\<bar> \<le> 1 / 2"
  unfolding roundHalfEven_def Let_def by (auto simp: abs_le_iff)

lemma roundHalfEven_nonneg: "0 \<le> y \<Longrightarrow> 0 \<le> roundHalfEven y"
  unfolding roundHalfEven_def Let_def by auto

lemma int_less_real: "(a::int) < b \<longleftrightarrow> real_of_int a + 1 \<le> real_of_int b"
proof -
  have "a < b \<longleftrightarrow> a + 1 \<le> b" by linarith
  also have "\<dots> \<longleftrightarrow> real_of_int (a + 1) \<le> real_of_int b" by (simp only: of_int_le_iff)
  finally show ?thesis by simp
qed

lemma roundHalfEven_less_even:
  assumes "even n"
  shows "roundHalfEven y < n \<longleftrightarrow> y < of_int n - 1 / 2"
proof -
  define f where "f = \<lfloor>y\<rfloor>"
  define r where "r = y - of_int f"
  have r: "0 \<le> r" "r < 1" and y: "y = of_int f + r"
    unfolding r_def f_def by linarith+
  consider "r < 1 / 2" | "1 / 2 < r" | "r = 1 / 2" "even f" | "r = 1 / 2" "odd f"
    by fastforce
  then show ?thesis
  proof cases
    case 1
    then have "roundHalfEven y = f"
      by (simp add: roundHalfEven_def f_def r_def Let_def)
    moreover have "f < n \<longleftrightarrow> of_int f + r < of_int n - 1 / 2"
      using 1 r int_less_real [of f n] int_less_real [of n "f + 1"] by auto
    ultimately show ?thesis using y by simp
  next
    case 2
    then have "roundHalfEven y = f + 1"
      by (simp add: roundHalfEven_def f_def r_def Let_def)
    moreover have "f + 1 < n \<longleftrightarrow> of_int f + r < of_int n - 1 / 2"
      using 2 r int_less_real [of "f + 1" n] int_less_real [of n "f + 2"] by auto
    ultimately show ?thesis using y by simp
  next
    case 3
    then have "roundHalfEven y = f"
      by (simp add: roundHalfEven_def f_def r_def Let_def)
    moreover have "f < n \<longleftrightarrow> f + 1 < n"
      using 3 assms by presburger
    moreover have "f + 1 < n \<longleftrightarrow> of_int f + r < of_int n - 1 / 2"
      using 3 int_less_real [of "f + 1" n] int_less_real [of n "f + 2"] by auto
    ultimately show ?thesis using y by simp
  next
    case 4
    then have "roundHalfEven y = f + 1"
      by (simp add: roundHalfEven_def f_def r_def Let_def)
    moreover have "f + 1 < n \<longleftrightarrow> of_int f + r < of_int n - 1 / 2"
      using 4 int_less_real [of "f + 1" n] int_less_real [of n "f + 2"] by auto
    ultimately show ?thesis using y by simp
  qed
qed

lemma binade:
  assumes "x \<noteq> 0"
  shows "2 powi \<lfloor>log 2 \<bar>x\<bar>\<rfloor> \<le> \<bar>x\<bar>" and "\<bar>x\<bar> < 2 powi (\<lfloor>log 2 \<bar>x\<bar>\<rfloor> + 1)"
proof -
  have pos: "0 < \<bar>x\<bar>" using assms by simp
  have "\<lfloor>log 2 \<bar>x\<bar>\<rfloor> = \<lfloor>log 2 \<bar>x\<bar>\<rfloor>" ..
  then have "2 powr real_of_int \<lfloor>log 2 \<bar>x\<bar>\<rfloor> \<le> \<bar>x\<bar> \<and>
             \<bar>x\<bar> < 2 powr real_of_int (\<lfloor>log 2 \<bar>x\<bar>\<rfloor> + 1)"
    using floor_log_eq_powr_iff [OF pos, of 2 "\<lfloor>log 2 \<bar>x\<bar>\<rfloor>"] by simp
  then show "2 powi \<lfloor>log 2 \<bar>x\<bar>\<rfloor> \<le> \<bar>x\<bar>" and "\<bar>x\<bar> < 2 powi (\<lfloor>log 2 \<bar>x\<bar>\<rfloor> + 1)"
    by (simp_all only: powr_real_of_int' [of 2, simplified])
qed

lemma abs_roundDouble:
  assumes "x \<noteq> 0"
  shows "\<bar>roundDouble x\<bar> =
    of_int (roundHalfEven (\<bar>x\<bar> / 2 powi (max (\<lfloor>log 2 \<bar>x\<bar>\<rfloor> - 52) (- 1074)))) *
      2 powi (max (\<lfloor>log 2 \<bar>x\<bar>\<rfloor> - 52) (- 1074))"
proof -
  let ?p = "(2::real) powi (max (\<lfloor>log 2 \<bar>x\<bar>\<rfloor> - 52) (- 1074))"
  let ?k = "real_of_int (roundHalfEven (\<bar>x\<bar> / ?p))"
  have p: "0 < ?p" by (rule zero_less_power_int) simp
  then have "0 \<le> \<bar>x\<bar> / ?p" by simp
  then have "0 \<le> roundHalfEven (\<bar>x\<bar> / ?p)" by (rule roundHalfEven_nonneg)
  then have k: "0 \<le> ?k" by simp
  have "roundDouble x = sgn x * (?k * ?p)"
    using assms by (simp only: roundDouble_def Let_def if_False)
  then have "\<bar>roundDouble x\<bar> = \<bar>sgn x\<bar> * (\<bar>?k\<bar> * \<bar>?p\<bar>)"
    by (simp only: abs_mult)
  also have "\<bar>sgn x\<bar> = 1" using assms by (simp add: abs_sgn_eq)
  also have "\<bar>?k\<bar> = ?k" using k by (rule abs_of_nonneg)
  also have "\<bar>?p\<bar> = ?p" using p by (simp only: abs_of_pos)
  finally show ?thesis by (simp only: mult_1)
qed

lemma roundDouble_near:
  assumes "x \<noteq> 0"
  shows "\<bar>\<bar>roundDouble x\<bar> - \<bar>x\<bar>\<bar> \<le> 2 powi (max (\<lfloor>log 2 \<bar>x\<bar>\<rfloor> - 52) (- 1074)) / 2"
proof -
  define p :: real where "p = 2 powi (max (\<lfloor>log 2 \<bar>x\<bar>\<rfloor> - 52) (- 1074))"
  define k :: real where "k = real_of_int (roundHalfEven (\<bar>x\<bar> / p))"
  have p: "0 < p" unfolding p_def by (rule zero_less_power_int) simp
  have "\<bar>k - \<bar>x\<bar> / p\<bar> \<le> 1 / 2" unfolding k_def by (rule roundHalfEven_near)
  then have "\<bar>k - \<bar>x\<bar> / p\<bar> * p \<le> 1 / 2 * p"
    using p by (intro mult_right_mono) simp_all
  also have "\<bar>k - \<bar>x\<bar> / p\<bar> * p = \<bar>(k - \<bar>x\<bar> / p) * p\<bar>"
    using p by (simp add: abs_mult)
  also have "(k - \<bar>x\<bar> / p) * p = k * p - \<bar>x\<bar>"
    using p by (simp add: field_simps)
  finally have "\<bar>k * p - \<bar>x\<bar>\<bar> \<le> p / 2" by simp
  moreover have "\<bar>roundDouble x\<bar> = k * p"
    unfolding k_def p_def by (rule abs_roundDouble [OF assms])
  ultimately show ?thesis unfolding p_def by simp
qed

lemma roundDouble_binade_2_4:
  assumes "2 \<le> \<bar>x\<bar>" and "\<bar>x\<bar> < 4"
  shows "\<bar>roundDouble x\<bar> = of_int (roundHalfEven (\<bar>x\<bar> * 2 ^ 51)) / 2 ^ 51"
proof -
  have nz: "x \<noteq> 0" using assms by auto
  have "\<lfloor>log 2 \<bar>x\<bar>\<rfloor> = 1"
    using floor_log_eq_powr_iff [of "\<bar>x\<bar>" 2 1] assms by simp
  then have q: "max (\<lfloor>log 2 \<bar>x\<bar>\<rfloor> - 52) (- 1074) = - 51" by simp
  have p: "(2::real) powi (- 51) = 1 / 2 ^ 51"
    by (simp only: power_int_minus_divide power_int_numeral)
  show ?thesis
    unfolding abs_roundDouble [OF nz] q p by simp
qed

lemma window_small:
  assumes "d \<noteq> 0" and "\<bar>d\<bar> < 2"
  shows "\<bar>roundDouble d\<bar> < 3"
proof -
  define e where "e = \<lfloor>log 2 \<bar>d\<bar>\<rfloor>"
  define q where "q = max (e - 52) (- 1074)"
  have "(2::real) powi e \<le> \<bar>d\<bar>"
    unfolding e_def by (rule binade(1) [OF assms(1)])
  with assms(2) have "(2::real) powi e < 2 powi 1" by simp
  then have "e < 1"
    using power_int_increasing [of 1 e "2::real"] by (cases "e < 1") simp_all
  then have "q \<le> 0" unfolding q_def by simp
  then have "(2::real) powi q \<le> 2 powi 0"
    by (intro power_int_increasing) simp_all
  then have "(2::real) powi q / 2 \<le> 1 / 2" by simp
  moreover have "\<bar>\<bar>roundDouble d\<bar> - \<bar>d\<bar>\<bar> \<le> 2 powi q / 2"
    unfolding q_def e_def by (rule roundDouble_near [OF assms(1)])
  ultimately have "\<bar>roundDouble d\<bar> \<le> \<bar>d\<bar> + 1 / 2" by linarith
  with assms(2) show ?thesis by linarith
qed

lemma window_large:
  assumes "4 \<le> \<bar>d\<bar>"
  shows "3 \<le> \<bar>roundDouble d\<bar>"
proof -
  have nz: "d \<noteq> 0" using assms by auto
  define e where "e = \<lfloor>log 2 \<bar>d\<bar>\<rfloor>"
  define q where "q = max (e - 52) (- 1074)"
  have "\<bar>d\<bar> < 2 powi (e + 1)"
    unfolding e_def by (rule binade(2) [OF nz])
  with assms have "(2::real) powi 2 < 2 powi (e + 1)" by simp
  then have "2 < e + 1"
    using power_int_increasing [of "e + 1" 2 "2::real"] by (cases "2 < e + 1") simp_all
  then have q: "q = e - 52" unfolding q_def by simp
  have "(2::real) powi q = 2 powi e / 2 powi 52"
    unfolding q by (rule power_int_diff) simp
  also have "\<dots> \<le> \<bar>d\<bar> / 2 powi 52"
    using binade(1) [OF nz] unfolding e_def by (intro divide_right_mono) simp_all
  also have "\<dots> \<le> \<bar>d\<bar> / 2"
    by (intro divide_left_mono) simp_all
  finally have "(2::real) powi q / 2 \<le> \<bar>d\<bar> / 4" by simp
  moreover have "\<bar>\<bar>roundDouble d\<bar> - \<bar>d\<bar>\<bar> \<le> 2 powi q / 2"
    unfolding q_def e_def by (rule roundDouble_near [OF nz])
  ultimately have "\<bar>d\<bar> - \<bar>d\<bar> / 4 \<le> \<bar>roundDouble d\<bar>" by linarith
  with assms show ?thesis by linarith
qed

lemma window_middle:
  assumes "2 \<le> \<bar>d\<bar>" and "\<bar>d\<bar> < 4"
  shows "\<bar>roundDouble d\<bar> < 3 \<longleftrightarrow> \<bar>d\<bar> < 3 - 1 / 2 ^ 52"
proof -
  have "\<bar>roundDouble d\<bar> < 3 \<longleftrightarrow>
        real_of_int (roundHalfEven (\<bar>d\<bar> * 2 ^ 51)) < real_of_int (3 * 2 ^ 51)"
    unfolding roundDouble_binade_2_4 [OF assms] by (simp add: divide_less_eq)
  also have "\<dots> \<longleftrightarrow> roundHalfEven (\<bar>d\<bar> * 2 ^ 51) < 3 * 2 ^ 51"
    by (simp only: of_int_less_iff)
  also have "\<dots> \<longleftrightarrow> \<bar>d\<bar> * 2 ^ 51 < real_of_int (3 * 2 ^ 51) - 1 / 2"
    by (rule roundHalfEven_less_even) simp
  also have "\<dots> \<longleftrightarrow> \<bar>d\<bar> < 3 - 1 / 2 ^ 52"
    by (simp add: field_simps)
  finally show ?thesis .
qed

lemma window_iff: "\<bar>roundDouble d\<bar> < 3 \<longleftrightarrow> \<bar>d\<bar> < 3 - 1 / 2 ^ 52"
proof -
  consider "d = 0" | "d \<noteq> 0" "\<bar>d\<bar> < 2" | "2 \<le> \<bar>d\<bar>" "\<bar>d\<bar> < 4" | "4 \<le> \<bar>d\<bar>"
    by linarith
  then show ?thesis
  proof cases
    case 1
    then show ?thesis by (simp add: roundDouble_def)
  next
    case 2
    from window_small [OF 2] have "\<bar>roundDouble d\<bar> < 3" .
    moreover have "\<bar>d\<bar> < 3 - 1 / 2 ^ 52" using 2(2) by simp
    ultimately show ?thesis by simp
  next
    case 3
    then show ?thesis by (rule window_middle)
  next
    case 4
    from window_large [OF 4] have "\<not> \<bar>roundDouble d\<bar> < 3" by simp
    moreover have "\<not> \<bar>d\<bar> < 3 - 1 / 2 ^ 52" using 4 by simp
    ultimately show ?thesis by simp
  qed
qed

lemma roundDouble_pos_binade:
  assumes "2 powi e \<le> x" and "x < 2 powi (e + 1)" and "- 1022 \<le> e"
  shows "roundDouble x = of_int (roundHalfEven (x / 2 powi (e - 52))) * 2 powi (e - 52)"
proof -
  have pos: "0 < x" using assms(1) zero_less_power_int [of "2::real" e] by linarith
  have "2 powr real_of_int e \<le> \<bar>x\<bar> \<and> \<bar>x\<bar> < 2 powr real_of_int (e + 1)"
    using assms(1,2) pos by (simp only: powr_real_of_int' [of 2, simplified] abs_of_pos)
  then have "\<lfloor>log 2 \<bar>x\<bar>\<rfloor> = e"
    using floor_log_eq_powr_iff [of "\<bar>x\<bar>" 2 e] pos by simp
  moreover have "max (e - 52) (- 1074) = e - 52" using assms(3) by simp
  ultimately show ?thesis using pos
    by (simp add: roundDouble_def Let_def)
qed

lemma double_3_3: "roundDouble 3.3 = time_3_3"
proof -
  have "roundDouble 3.3 = of_int (roundHalfEven (3.3 / 2 powi (1 - 52))) * 2 powi (1 - 52)"
    by (rule roundDouble_pos_binade) simp_all
  also have "(3.3::real) / 2 powi (1 - 52) = 37154696925806592 / 5"
    by (simp add: power_int_minus_divide)
  also have "roundHalfEven (37154696925806592 / 5) = 7430939385161318"
    by (simp add: roundHalfEven_def Let_def)
  finally show ?thesis by (simp add: time_3_3_def power_int_minus_divide)
qed

lemma double_0_3: "roundDouble 0.3 = time_0_3"
proof -
  have "roundDouble 0.3 = of_int (roundHalfEven (0.3 / 2 powi (- 2 - 52))) * 2 powi (- 2 - 52)"
    by (rule roundDouble_pos_binade) (simp_all add: power_int_minus_divide)
  also have "(0.3::real) / 2 powi (- 2 - 52) = 27021597764222976 / 5"
    by (simp add: power_int_minus_divide)
  also have "roundHalfEven (27021597764222976 / 5) = 5404319552844595"
    by (simp add: roundHalfEven_def Let_def)
  finally show ?thesis by (simp add: time_0_3_def power_int_minus_divide)
qed

subsection \<open>When a marker is drawn\<close>

lemma pdf_iff:
  "(pdfPageMarker iss sel hov index issue \<noteq> None) =
     (boundingBox issue \<noteq> None \<and>
      (page_number issue = Some (int index + 1) \<or>
       (page_number issue = None \<or> page_number issue = Some 0) \<and> index = 0))"
  by (auto simp: pdfPageMarker_def truthy_int_def Let_def split: option.splits)

lemma slide_iff:
  "(slideMarker iss sel hov index issue \<noteq> None) =
     (boundingBox issue \<noteq> None \<and>
      (page_number issue = Some (int index + 1) \<or>
       (page_number issue = None \<or> page_number issue = Some 0) \<and> index = 0))"
  by (auto simp: slideMarker_def truthy_int_def Let_def split: option.splits)

lemma media_video_iff:
  "(mediaMarker True iss sel hov now issue \<noteq> None) =
     (boundingBox issue \<noteq> None \<and>
      (sel = Some (issue_id issue) \<or>
       (\<exists>ts. timestamp issue = Some ts \<and> \<bar>now - ts\<bar> < 3 - 1 / 2 ^ 52)))"
  by (auto simp: mediaMarker_def Let_def window_iff split: option.splits)

lemma media_image_iff:
  "(mediaMarker False iss sel hov now issue \<noteq> None) = (boundingBox issue \<noteq> None)"
  by (auto simp: mediaMarker_def Let_def split: option.splits)

subsection \<open>What a drawn marker looks like\<close>

lemma pdf_Some:
  "pdfPageMarker iss sel hov index issue = Some m \<Longrightarrow>
     \<exists>box. boundingBox issue = Some box \<and> key m = issue_id issue \<and>
       centerX m = box_x box + box_width box / 2 \<and>
       centerY m = box_y box + box_height box / 2 \<and>
       badge m = findIndex (\<lambda>x. issue_id x = issue_id issue) iss + 1"
  by (auto simp: pdfPageMarker_def Let_def split: option.splits if_splits)

lemma slide_Some:
  "slideMarker iss sel hov index issue = Some m \<Longrightarrow>
     \<exists>box. boundingBox issue = Some box \<and> key m = issue_id issue \<and>
       centerX m = box_x box + box_width box / 2 \<and>
       centerY m = box_y box + box_height box / 2 \<and>
       badge m = findIndex (\<lambda>x. issue_id x = issue_id issue) iss + 1"
  by (auto simp: slideMarker_def Let_def split: option.splits if_splits)

lemma html_Some:
  "htmlMarker iss sel issue = Some m \<Longrightarrow>
     \<exists>box. boundingBox issue = Some box \<and> key m = issue_id issue \<and>
       centerX m = box_x box + box_width box / 2 \<and>
       centerY m = box_y box + box_height box / 2 \<and>
       badge m = findIndex (\<lambda>x. issue_id x = issue_id issue) iss + 1"
  by (auto simp: htmlMarker_def Let_def split: option.splits if_splits)

lemma media_Some:
  "mediaMarker isVid iss sel hov now issue = Some m \<Longrightarrow>
     \<exists>box. boundingBox issue = Some box \<and> key m = issue_id issue \<and>
       centerX m = box_x box + box_width box / 2 \<and>
       centerY m = box_y box + box_height box / 2 \<and>
       badge m = findIndex (\<lambda>x. issue_id x = issue_id issue) iss + 1"
  by (auto simp: mediaMarker_def Let_def split: option.splits if_splits)

subsection \<open>The rendered layers\<close>

lemma placed_media:
  "\<not> isDoc p \<Longrightarrow> placedMarkers p s =
     List.map_filter
       (mediaMarker (isVideo p) (issues p) (selectedIssueId p) (hoveredMarkerId s)
          (currentTime s))
       (filter hasBox (issues p))"
  by (simp add: placedMarkers_def annotationLayers_def)

lemma placed_origin:
  assumes "m \<in> set (placedMarkers p s)"
  shows "\<exists>issue \<in> set (issues p).
           (\<exists>index. pdfPageMarker (issues p) (selectedIssueId p) (hoveredMarkerId s)
                      index issue = Some m) \<or>
           (\<exists>index. slideMarker (issues p) (selectedIssueId p) (hoveredMarkerId s)
                      index issue = Some m) \<or>
           htmlMarker (issues p) (selectedIssueId p) issue = Some m \<or>
           mediaMarker (isVideo p) (issues p) (selectedIssueId p) (hoveredMarkerId s)
             (currentTime s) issue = Some m"
  using assms
  by (auto simp: placedMarkers_def annotationLayers_def set_map_filter split: if_splits)

lemma placed_shape:
  assumes "m \<in> set (placedMarkers p s)"
  shows "\<exists>issue \<in> set (issues p). \<exists>box.
       boundingBox issue = Some box \<and> key m = issue_id issue \<and>
       centerX m = box_x box + box_width box / 2 \<and>
       centerY m = box_y box + box_height box / 2 \<and>
       badge m = findIndex (\<lambda>x. issue_id x = issue_id issue) (issues p) + 1"
proof -
  from placed_origin [OF assms] obtain issue where
    mem: "issue \<in> set (issues p)" and
    or: "(\<exists>index. pdfPageMarker (issues p) (selectedIssueId p) (hoveredMarkerId s)
                      index issue = Some m) \<or>
         (\<exists>index. slideMarker (issues p) (selectedIssueId p) (hoveredMarkerId s)
                      index issue = Some m) \<or>
         htmlMarker (issues p) (selectedIssueId p) issue = Some m \<or>
         mediaMarker (isVideo p) (issues p) (selectedIssueId p) (hoveredMarkerId s)
           (currentTime s) issue = Some m"
    by blast
  have "\<exists>box. boundingBox issue = Some box \<and> key m = issue_id issue \<and>
       centerX m = box_x box + box_width box / 2 \<and>
       centerY m = box_y box + box_height box / 2 \<and>
       badge m = findIndex (\<lambda>x. issue_id x = issue_id issue) (issues p) + 1"
    using or
  proof (elim disjE exE)
    fix index
    assume "pdfPageMarker (issues p) (selectedIssueId p) (hoveredMarkerId s) index issue
              = Some m"
    then show ?thesis by (rule pdf_Some)
  next
    fix index
    assume "slideMarker (issues p) (selectedIssueId p) (hoveredMarkerId s) index issue
              = Some m"
    then show ?thesis by (rule slide_Some)
  next
    assume "htmlMarker (issues p) (selectedIssueId p) issue = Some m"
    then show ?thesis by (rule html_Some)
  next
    assume "mediaMarker (isVideo p) (issues p) (selectedIssueId p) (hoveredMarkerId s)
              (currentTime s) issue = Some m"
    then show ?thesis by (rule media_Some)
  qed
  with mem show ?thesis by blast
qed

lemma pdf_layer_nth:
  "isDoc p \<Longrightarrow> isPDF p \<Longrightarrow> index < numPages s \<Longrightarrow>
   annotationLayers p s ! index =
     List.map_filter
       (pdfPageMarker (issues p) (selectedIssueId p) (hoveredMarkerId s) index) (issues p)"
  by (simp add: annotationLayers_def useCarousel_def)

lemma slide_layer_nth:
  "isDoc p \<Longrightarrow> \<not> isPDF p \<Longrightarrow> visualSlides p = Some sl \<Longrightarrow> index < length sl \<Longrightarrow>
   annotationLayers p s ! index =
     List.map_filter
       (slideMarker (issues p) (selectedIssueId p) (hoveredMarkerId s) index) (issues p)"
  by (auto simp: annotationLayers_def useCarousel_def hasVisualSlides_def)

lemma map_map_filter:
  "map g (List.map_filter f xs) = List.map_filter (\<lambda>x. map_option g (f x)) xs"
  by (induction xs) (auto simp: List.map_filter_simps split: option.splits)

lemma pdf_unselect:
  "map_option (\<lambda>m. m\<lparr>isSelected := False\<rparr>) (pdfPageMarker iss sel hov index issue) =
   map_option (\<lambda>m. m\<lparr>isSelected := False\<rparr>) (pdfPageMarker iss sel' hov index issue)"
  by (simp add: pdfPageMarker_def Let_def split: option.splits)

lemma slide_unselect:
  "map_option (\<lambda>m. m\<lparr>isSelected := False\<rparr>) (slideMarker iss sel hov index issue) =
   map_option (\<lambda>m. m\<lparr>isSelected := False\<rparr>) (slideMarker iss sel' hov index issue)"
  by (simp add: slideMarker_def Let_def split: option.splits)

lemma mode_select:
  "isDoc (p\<lparr>selectedIssueId := sel'\<rparr>) = isDoc p"
  "useCarousel (p\<lparr>selectedIssueId := sel'\<rparr>) = useCarousel p"
  "isPDF (p\<lparr>selectedIssueId := sel'\<rparr>) = isPDF p"
  by (simp_all add: mode_defs)

subsection \<open>The sample document and the sample image, rendered\<close>

lemma placed_pdf_sample: "marker_b \<in> set (placedMarkers pdfProps viewState0)"
  by (simp add: placedMarkers_def annotationLayers_def mode_defs pdfProps_def viewState0_def
      issue_a_def issue_b_def issue_c_def issue_z_def box_a_def box_b_def box_out_def
      marker_b_def List.map_filter_simps pdfPageMarker_def truthy_int_def upt_rec)

lemma placed_image_sample: "marker_z \<in> set (placedMarkers imageProps viewState0)"
  by (simp add: placedMarkers_def annotationLayers_def mode_defs imageProps_def viewState0_def
      issue_a_def issue_b_def issue_c_def issue_z_def box_a_def box_b_def box_out_def
      marker_z_def List.map_filter_simps mediaMarker_def hasBox_def Let_def)

subsection \<open>Seeking and scrolling\<close>

lemma seek_nonzero:
  "isVideo p \<Longrightarrow> videoRef s \<Longrightarrow> timestamp issue = Some ts \<Longrightarrow> ts \<noteq> 0 \<Longrightarrow>
   handleSeekToIssue p s issue = [SetCurrentTime ts, Pause, OnIssueSelect (issue_id issue)]"
  by (simp add: handleSeekToIssue_def truthy_real_def)

lemma seek_zero:
  "timestamp issue = Some 0 \<Longrightarrow>
   handleSeekToIssue p s issue = [OnIssueSelect (issue_id issue)]"
  by (simp add: handleSeekToIssue_def truthy_real_def)

lemma scroll_to_page:
  assumes "\<not> isVideo p" and "useCarousel p"
    and "selectedIssueId p = Some sid" and "sid \<noteq> []"
    and "find (\<lambda>i. Some (issue_id i) = selectedIssueId p) (issues p) = Some issue"
    and "(case page_number issue of None \<Rightarrow> 1 | Some n \<Rightarrow> if n = 0 then 1 else n)
           \<in> set (pageRefs s)"
  shows "selectionEffect p s =
     [ScrollIntoView
        (case page_number issue of None \<Rightarrow> 1 | Some n \<Rightarrow> if n = 0 then 1 else n)]"
  using assms
  by (auto simp: selectionEffect_def truthy_string_def truthy_int_def Let_def
      split: option.splits)

section \<open>Markers on the pages of a carousel\<close>

text \<open>
  Claim C1 says that on page \<open>p\<close> of a PDF or of a slide deck an issue is drawn exactly
  when it has a bounding box and either its page number is \<open>p\<close>, or it has no page number
  and \<open>p = 1\<close>. The code tests the page number as a condition, so a page number of 0
  counts as missing: \<open>issue_z\<close>, whose page number is 0, is drawn on page 1.
\<close>

theorem page_zero_on_first_page:
  "\<not> ((pdfPageMarker [issue_z] None None 0 issue_z \<noteq> None) =
       (boundingBox issue_z \<noteq> None \<and>
        (page_number issue_z = Some (int 0 + 1) \<or>
         page_number issue_z = None \<and> int 0 + 1 = 1)))"
  by (simp add: pdfPageMarker_def truthy_int_def issue_z_def box_out_def)

text \<open>
  Claim C1, amended: on the page with number \<open>index + 1\<close> of a PDF or of a slide deck, an
  issue is drawn if and only if it has a bounding box and either its page number is
  \<open>index + 1\<close>, or it has no page number or the page number 0 and the page is page 1.
  So an issue with a bounding box and a page number \<open>q\<close> other than 0 is drawn on page
  \<open>q\<close> and on no other page.
\<close>

theorem carousel_marker_iff:
  "((pdfPageMarker iss sel hov index issue \<noteq> None) =
     (boundingBox issue \<noteq> None \<and>
      (page_number issue = Some (int index + 1) \<or>
       (page_number issue = None \<or> page_number issue = Some 0) \<and> int index + 1 = 1))) \<and>
   ((slideMarker iss sel hov index issue \<noteq> None) =
     (boundingBox issue \<noteq> None \<and>
      (page_number issue = Some (int index + 1) \<or>
       (page_number issue = None \<or> page_number issue = Some 0) \<and> int index + 1 = 1)))"
  by (simp only: pdf_iff slide_iff) simp

theorem carousel_marker_iff_witness:
  "pdfPageMarker (issues pdfProps) None None 1 issue_b \<noteq> None \<and>
   pdfPageMarker (issues pdfProps) None None 0 issue_b = None \<and>
   slideMarker (issues pdfProps) None None 0 issue_z \<noteq> None \<and>
   slideMarker (issues pdfProps) None None 0 issue_c = None"
  using carousel_marker_iff [of "issues pdfProps" None None 1 issue_b]
    carousel_marker_iff [of "issues pdfProps" None None 0 issue_b]
    carousel_marker_iff [of "issues pdfProps" None None 0 issue_z]
    carousel_marker_iff [of "issues pdfProps" None None 0 issue_c]
  by (simp add: issue_b_def issue_c_def issue_z_def)

section \<open>Markers over a video\<close>

text \<open>
  Claim C2 says that on a video an issue with a bounding box is drawn exactly when it is
  the selected issue or its timestamp is less than 3.0 seconds away from the playback
  time. The code compares the difference as it is computed in double precision: with the
  playback at 3.3 s and a timestamp of 0.3 s, the two doubles are less than 3 apart, their
  difference rounds to 3.0, and the issue, which is not selected, is not drawn.
\<close>

theorem window_edge_not_drawn:
  "isVideo videoEdgeProps \<and> \<not> isDoc videoEdgeProps \<and>
   issue_w \<in> set (issues videoEdgeProps) \<and> boundingBox issue_w \<noteq> None \<and>
   timestamp issue_w = Some time_0_3 \<and> currentTime viewStateEdge = time_3_3 \<and>
   \<bar>time_3_3 - time_0_3\<bar> < 3.0 \<and>
   mediaMarker (isVideo videoEdgeProps) (issues videoEdgeProps)
     (selectedIssueId videoEdgeProps) (hoveredMarkerId viewStateEdge)
     (currentTime viewStateEdge) issue_w = None \<and>
   placedMarkers videoEdgeProps viewStateEdge = []"
  by (simp add: placedMarkers_def annotationLayers_def mode_defs videoEdgeProps_def
      viewStateEdge_def issue_w_def box_a_def time_3_3_def time_0_3_def hasBox_def
      List.map_filter_simps mediaMarker_def Let_def window_iff)

text \<open>
  Claim C2, amended: on a video (an asset the component takes for a video and renders with
  its player, not as a document), an issue of the list that has a bounding box is drawn if
  and only if it is the selected issue or it has a timestamp \<open>ts\<close> whose difference from
  the playback time \<open>t\<close>, computed in double precision, is less than 3.0 in absolute value;
  in terms of the exact difference, if and only if \<open>\<bar>t - ts\<bar> < 3 - 1 / 2 ^ 52\<close>, since an
  exact difference from there up to 3 rounds to 3.0. So an issue that is not selected and
  whose timestamp is 3.0 seconds or more away is not drawn.
\<close>

theorem video_marker_iff:
  assumes "isVideo p" and "\<not> isDoc p" and "issue \<in> set (issues p)"
    and "boundingBox issue \<noteq> None"
  shows "((\<exists>m \<in> set (placedMarkers p s).
             mediaMarker (isVideo p) (issues p) (selectedIssueId p) (hoveredMarkerId s)
               (currentTime s) issue = Some m) =
          (selectedIssueId p = Some (issue_id issue) \<or>
           (\<exists>ts. timestamp issue = Some ts \<and> \<bar>roundDouble (currentTime s - ts)\<bar> < 3.0))) \<and>
         ((\<exists>m \<in> set (placedMarkers p s).
             mediaMarker (isVideo p) (issues p) (selectedIssueId p) (hoveredMarkerId s)
               (currentTime s) issue = Some m) =
          (selectedIssueId p = Some (issue_id issue) \<or>
           (\<exists>ts. timestamp issue = Some ts \<and> \<bar>currentTime s - ts\<bar> < 3 - 1 / 2 ^ 52))) \<and>
         (selectedIssueId p \<noteq> Some (issue_id issue) \<and>
          (\<exists>ts. timestamp issue = Some ts \<and> 3.0 \<le> \<bar>currentTime s - ts\<bar>) \<longrightarrow>
            \<not> (\<exists>m \<in> set (placedMarkers p s).
                 mediaMarker (isVideo p) (issues p) (selectedIssueId p) (hoveredMarkerId s)
                   (currentTime s) issue = Some m))"
proof -
  let ?f = "mediaMarker (isVideo p) (issues p) (selectedIssueId p) (hoveredMarkerId s)
              (currentTime s)"
  let ?drawn = "\<exists>m \<in> set (placedMarkers p s). ?f issue = Some m"
  have box: "issue \<in> set (filter hasBox (issues p))"
    using assms by (simp add: hasBox_def)
  have "?drawn = (?f issue \<noteq> None)"
    using box assms(2) by (auto simp: placed_media set_map_filter)
  also have "\<dots> = (selectedIssueId p = Some (issue_id issue) \<or>
          (\<exists>ts. timestamp issue = Some ts \<and> \<bar>currentTime s - ts\<bar> < 3 - 1 / 2 ^ 52))"
    using assms(1,4) by (simp only: media_video_iff) simp
  finally have exact: "?drawn = (selectedIssueId p = Some (issue_id issue) \<or>
          (\<exists>ts. timestamp issue = Some ts \<and> \<bar>currentTime s - ts\<bar> < 3 - 1 / 2 ^ 52))" .
  have rounded: "?drawn = (selectedIssueId p = Some (issue_id issue) \<or>
          (\<exists>ts. timestamp issue = Some ts \<and> \<bar>roundDouble (currentTime s - ts)\<bar> < 3.0))"
    unfolding exact by (simp add: window_iff)
  have far: "selectedIssueId p \<noteq> Some (issue_id issue) \<and>
          (\<exists>ts. timestamp issue = Some ts \<and> 3.0 \<le> \<bar>currentTime s - ts\<bar>) \<longrightarrow> \<not> ?drawn"
    unfolding exact by auto
  from rounded exact far show ?thesis by (intro conjI)
qed

theorem video_marker_iff_witness:
  "isVideo videoProps \<and> \<not> isDoc videoProps \<and>
   issue_b \<in> set (issues videoProps) \<and> boundingBox issue_b \<noteq> None \<and>
   issue_z \<in> set (issues videoProps) \<and> boundingBox issue_z \<noteq> None \<and>
   (\<exists>m \<in> set (placedMarkers videoProps viewState0).
      mediaMarker (isVideo videoProps) (issues videoProps) (selectedIssueId videoProps)
        (hoveredMarkerId viewState0) (currentTime viewState0) issue_b = Some m) \<and>
   \<not> (\<exists>m \<in> set (placedMarkers videoProps viewState0).
      mediaMarker (isVideo videoProps) (issues videoProps) (selectedIssueId videoProps)
        (hoveredMarkerId viewState0) (currentTime viewState0) issue_z = Some m)"
proof -
  have v: "isVideo videoProps" and d: "\<not> isDoc videoProps"
    by (simp_all add: mode_defs videoProps_def)
  have b: "issue_b \<in> set (issues videoProps)" "boundingBox issue_b \<noteq> None"
    and z: "issue_z \<in> set (issues videoProps)" "boundingBox issue_z \<noteq> None"
    by (simp_all add: videoProps_def issue_b_def issue_z_def)
  have "selectedIssueId videoProps = Some (issue_id issue_b) \<or>
        (\<exists>ts. timestamp issue_b = Some ts \<and>
              \<bar>currentTime viewState0 - ts\<bar> < 3 - 1 / 2 ^ 52)"
    by (intro disjI2 exI [of _ "42.5"]) (simp add: issue_b_def viewState0_def)
  moreover have "\<not> (selectedIssueId videoProps = Some (issue_id issue_z) \<or>
        (\<exists>ts. timestamp issue_z = Some ts \<and>
              \<bar>currentTime viewState0 - ts\<bar> < 3 - 1 / 2 ^ 52))"
    by (simp add: issue_z_def viewState0_def videoProps_def)
  ultimately show ?thesis
    using video_marker_iff [OF v d b, of viewState0] video_marker_iff [OF v d z, of viewState0]
      v d b z
    by blast
qed

section \<open>Badge numbers\<close>

text \<open>
  Claim C3: when the ids of the issues are pairwise different, the badge of every marker
  that is drawn, in whatever mode, on whatever page and at whatever playback time, is
  1 + the position in the whole list of issues of the issue it belongs to.
\<close>

theorem badge_is_list_position:
  assumes "distinct (map issue_id (issues p))" and "m \<in> set (placedMarkers p s)"
  shows "\<exists>i < length (issues p). key m = issue_id (issues p ! i) \<and> badge m = 1 + int i"
proof -
  from placed_shape [OF assms(2)] obtain issue where
    mem: "issue \<in> set (issues p)" and k: "key m = issue_id issue" and
    b: "badge m = findIndex (\<lambda>x. issue_id x = issue_id issue) (issues p) + 1"
    by blast
  from mem obtain i where i: "i < length (issues p)" and at: "issues p ! i = issue"
    by (auto simp: in_set_conv_nth)
  have "findIndex (\<lambda>x. issue_id x = issue_id (issues p ! i)) (issues p) = int i"
    using findIndex_distinct [OF assms(1) i] .
  with b at have "badge m = 1 + int i" by simp
  with i k at show ?thesis by blast
qed

theorem badge_is_list_position_witness:
  "distinct (map issue_id (issues pdfProps)) \<and>
   marker_b \<in> set (placedMarkers pdfProps viewState0) \<and>
   (\<exists>i < length (issues pdfProps).
      key marker_b = issue_id (issues pdfProps ! i) \<and> badge marker_b = 1 + int i)"
proof -
  have d: "distinct (map issue_id (issues pdfProps))"
    by (simp add: pdfProps_def issue_a_def issue_b_def issue_c_def issue_z_def)
  note m = placed_pdf_sample
  from badge_is_list_position [OF d m] d m show ?thesis by blast
qed

section \<open>Seeking to the selected issue\<close>

text \<open>
  Claim C4 says that selecting an issue that has a timestamp, on a video, seeks to that
  timestamp and pauses. The seek is guarded by the timestamp taken as a condition, which
  fails for the timestamp 0: with the sample video playing at 41 s, selecting \<open>issue_t\<close>,
  whose timestamp is 0, only reports the selection. There is no seek and no pause, neither
  from the effect that follows the selection nor from a click on the tick of the issue.
\<close>

theorem seek_skipped_for_timestamp_zero:
  "issue_t \<in> set (issues videoProps) \<and> timestamp issue_t = Some 0 \<and>
   isVideo videoProps \<and> videoRef viewState0 \<and> currentTime viewState0 = 41 \<and>
   selectedIssueId videoProps = Some (issue_id issue_t) \<and>
   selectionEffect videoProps viewState0 = [OnIssueSelect ''t''] \<and>
   handleSeekToIssue videoProps viewState0 issue_t = [OnIssueSelect ''t'']"
  by (simp add: selectionEffect_def handleSeekToIssue_def truthy_real_def mode_defs
      videoProps_def viewState0_def issue_t_def issue_b_def issue_c_def issue_z_def)

section \<open>Issues with a malformed anchor\<close>

text \<open>
  Claim C5 says that an issue with a page number out of range (0, negative or beyond the
  last page) or with a negative timestamp is never drawn. Nothing validates these fields:
  \<open>issue_z\<close>, with page number 0 and timestamp -1, is drawn on page 1 of a PDF, over a
  video that plays at 0 s, and over an image.
\<close>

theorem malformed_issue_drawn:
  "\<not> (pdfPageMarker [issue_z] None None 0 issue_z = None) \<and>
   \<not> (mediaMarker True [issue_z] None None 0 issue_z = None) \<and>
   \<not> (mediaMarker False [issue_z] None None 0 issue_z = None)"
  by (simp add: pdfPageMarker_def mediaMarker_def truthy_int_def issue_z_def box_out_def
      Let_def window_iff)

text \<open>
  Claim C5, amended: the functions that compute the markers are total, there is no input
  on which they fail. On the \<open>n\<close> pages of a PDF or of a slide deck, an issue whose page
  number is negative or greater than \<open>n\<close> is drawn on no page. Over a video, an issue with
  a negative timestamp \<open>ts\<close> that is not the selected one is not drawn once the playback
  time has reached \<open>ts + 3\<close>.
\<close>

theorem out_of_range_anchor_omitted:
  "(page_number issue = Some q \<and> (q < 0 \<or> int n < q) \<and> index < n \<longrightarrow>
      pdfPageMarker iss sel hov index issue = None \<and>
      slideMarker iss sel hov index issue = None) \<and>
   (timestamp issue = Some ts \<and> ts < 0 \<and> sel \<noteq> Some (issue_id issue) \<and> ts + 3 \<le> now \<longrightarrow>
      mediaMarker True iss sel hov now issue = None)"
  by (auto simp: pdfPageMarker_def slideMarker_def mediaMarker_def truthy_int_def Let_def
      window_iff)

theorem out_of_range_anchor_omitted_witness:
  "page_number issue_far = Some 7 \<and> int 3 < 7 \<and> (1::nat) < 3 \<and>
   pdfPageMarker [issue_a, issue_far] None None 1 issue_far = None \<and>
   slideMarker [issue_a, issue_far] None None 1 issue_far = None \<and>
   timestamp issue_far = Some (- 5) \<and> (- 5 :: real) < 0 \<and> (- 5 :: real) + 3 \<le> 0 \<and>
   mediaMarker True [issue_a, issue_far] None None 0 issue_far = None"
  using out_of_range_anchor_omitted
    [of issue_far 7 3 1 "[issue_a, issue_far]" None None "- 5" 0]
  by (simp add: issue_far_def)

section \<open>Issues without a bounding box\<close>

text \<open>
  Claim C6: an issue without a bounding box is never among the placed markers, in any
  mode. No layer draws it, whatever the page, the selection, the hovered marker and the
  playback time, and every marker that is placed was drawn for an issue of the list that
  has a bounding box.
\<close>

theorem no_box_no_marker:
  "(boundingBox issue = None \<longrightarrow>
      pdfPageMarker iss sel hov index issue = None \<and>
      slideMarker iss sel hov index issue = None \<and>
      htmlMarker iss sel issue = None \<and>
      mediaMarker isVid iss sel hov now issue = None) \<and>
   (m \<in> set (placedMarkers p s) \<longrightarrow>
      (\<exists>x \<in> set (issues p). boundingBox x \<noteq> None \<and>
         ((\<exists>i. pdfPageMarker (issues p) (selectedIssueId p) (hoveredMarkerId s) i x
                 = Some m) \<or>
          (\<exists>i. slideMarker (issues p) (selectedIssueId p) (hoveredMarkerId s) i x
                 = Some m) \<or>
          htmlMarker (issues p) (selectedIssueId p) x = Some m \<or>
          mediaMarker (isVideo p) (issues p) (selectedIssueId p) (hoveredMarkerId s)
            (currentTime s) x = Some m)))"
proof (intro conjI impI)
  assume "m \<in> set (placedMarkers p s)"
  from placed_origin [OF this] obtain x where
    mem: "x \<in> set (issues p)" and
    or: "(\<exists>i. pdfPageMarker (issues p) (selectedIssueId p) (hoveredMarkerId s) i x
                 = Some m) \<or>
         (\<exists>i. slideMarker (issues p) (selectedIssueId p) (hoveredMarkerId s) i x
                 = Some m) \<or>
         htmlMarker (issues p) (selectedIssueId p) x = Some m \<or>
         mediaMarker (isVideo p) (issues p) (selectedIssueId p) (hoveredMarkerId s)
           (currentTime s) x = Some m"
    by blast
  from or have "boundingBox x \<noteq> None"
    by (auto dest: pdf_Some slide_Some html_Some media_Some)
  with mem or show "\<exists>x \<in> set (issues p). boundingBox x \<noteq> None \<and>
         ((\<exists>i. pdfPageMarker (issues p) (selectedIssueId p) (hoveredMarkerId s) i x
                 = Some m) \<or>
          (\<exists>i. slideMarker (issues p) (selectedIssueId p) (hoveredMarkerId s) i x
                 = Some m) \<or>
          htmlMarker (issues p) (selectedIssueId p) x = Some m \<or>
          mediaMarker (isVideo p) (issues p) (selectedIssueId p) (hoveredMarkerId s)
            (currentTime s) x = Some m)"
    by blast
qed (simp_all add: pdfPageMarker_def slideMarker_def htmlMarker_def mediaMarker_def Let_def)

theorem no_box_no_marker_witness:
  "boundingBox issue_c = None \<and>
   pdfPageMarker (issues pdfProps) None None 0 issue_c = None \<and>
   slideMarker (issues pdfProps) None None 0 issue_c = None \<and>
   htmlMarker (issues pdfProps) None issue_c = None \<and>
   mediaMarker True (issues pdfProps) None None 10 issue_c = None \<and>
   marker_b \<in> set (placedMarkers pdfProps viewState0) \<and>
   (\<exists>x \<in> set (issues pdfProps). boundingBox x \<noteq> None \<and>
      ((\<exists>i. pdfPageMarker (issues pdfProps) (selectedIssueId pdfProps)
              (hoveredMarkerId viewState0) i x = Some marker_b) \<or>
       (\<exists>i. slideMarker (issues pdfProps) (selectedIssueId pdfProps)
              (hoveredMarkerId viewState0) i x = Some marker_b) \<or>
       htmlMarker (issues pdfProps) (selectedIssueId pdfProps) x = Some marker_b \<or>
       mediaMarker (isVideo pdfProps) (issues pdfProps) (selectedIssueId pdfProps)
         (hoveredMarkerId viewState0) (currentTime viewState0) x = Some marker_b))"
proof -
  have c: "boundingBox issue_c = None" by (simp add: issue_c_def)
  from no_box_no_marker [where issue = issue_c and iss = "issues pdfProps" and sel = None
      and hov = None and index = 0 and isVid = True and now = 10 and m = marker_b
      and p = pdfProps and s = viewState0] c placed_pdf_sample
  show ?thesis by blast
qed

section \<open>Where a marker is placed\<close>

text \<open>
  Claim C7: a marker drawn for an issue with the bounding box \<open>{x, y, width, height}\<close> is
  anchored at \<open>(x + width / 2, y + height / 2)\<close>, in percent, in every layer; nothing
  clamps or validates the result, which may lie outside the range from 0 to 100.
\<close>

theorem anchor_is_box_centre:
  "(pdfPageMarker iss sel hov index issue = Some m \<or>
    slideMarker iss sel hov index issue = Some m \<or>
    htmlMarker iss sel issue = Some m \<or>
    mediaMarker isVid iss sel hov now issue = Some m \<longrightarrow>
      (\<exists>box. boundingBox issue = Some box \<and>
         centerX m = box_x box + box_width box / 2 \<and>
         centerY m = box_y box + box_height box / 2)) \<and>
   (m \<in> set (placedMarkers p s) \<longrightarrow>
      (\<exists>x \<in> set (issues p). \<exists>box. boundingBox x = Some box \<and> key m = issue_id x \<and>
         centerX m = box_x box + box_width box / 2 \<and>
         centerY m = box_y box + box_height box / 2))"
proof (intro conjI impI)
  assume "m \<in> set (placedMarkers p s)"
  from placed_shape [OF this]
  show "\<exists>x \<in> set (issues p). \<exists>box. boundingBox x = Some box \<and> key m = issue_id x \<and>
         centerX m = box_x box + box_width box / 2 \<and>
         centerY m = box_y box + box_height box / 2"
    by blast
next
  assume "pdfPageMarker iss sel hov index issue = Some m \<or>
    slideMarker iss sel hov index issue = Some m \<or>
    htmlMarker iss sel issue = Some m \<or>
    mediaMarker isVid iss sel hov now issue = Some m"
  then show "\<exists>box. boundingBox issue = Some box \<and>
         centerX m = box_x box + box_width box / 2 \<and>
         centerY m = box_y box + box_height box / 2"
  proof (elim disjE)
    assume "pdfPageMarker iss sel hov index issue = Some m"
    from pdf_Some [OF this] show ?thesis by blast
  next
    assume "slideMarker iss sel hov index issue = Some m"
    from slide_Some [OF this] show ?thesis by blast
  next
    assume "htmlMarker iss sel issue = Some m"
    from html_Some [OF this] show ?thesis by blast
  next
    assume "mediaMarker isVid iss sel hov now issue = Some m"
    from media_Some [OF this] show ?thesis by blast
  qed
qed

theorem anchor_is_box_centre_witness:
  "mediaMarker False (issues imageProps) None None 41 issue_z = Some marker_z \<and>
   boundingBox issue_z = Some box_out \<and>
   centerX marker_z = 105 \<and> centerY marker_z = - 7.5 \<and>
   marker_z \<in> set (placedMarkers imageProps viewState0)"
proof -
  have m: "mediaMarker False (issues imageProps) None None 41 issue_z = Some marker_z"
    by (simp add: mediaMarker_def Let_def imageProps_def issue_a_def issue_b_def issue_c_def
        issue_z_def box_out_def marker_z_def)
  have b: "boundingBox issue_z = Some box_out" by (simp add: issue_z_def)
  from anchor_is_box_centre
    [of "issues imageProps" None None 0 issue_z marker_z False 41 imageProps viewState0] m b
  have "centerX marker_z = box_x box_out + box_width box_out / 2 \<and>
        centerY marker_z = box_y box_out + box_height box_out / 2"
    by auto
  then have "centerX marker_z = 105 \<and> centerY marker_z = - 7.5"
    by (simp add: box_out_def)
  with m b placed_image_sample show ?thesis by blast
qed

section \<open>Markers over an image\<close>

text \<open>
  Claim C8: over a static image (an asset rendered in the media mode that the component
  does not take for a video), every issue of the list that has a bounding box is drawn,
  whatever the selection, the hovered marker and the playback time: no page and no time
  gates it.
\<close>

theorem image_markers_unconditional:
  assumes "\<not> isVideo p" and "\<not> isDoc p" and "issue \<in> set (issues p)"
    and "boundingBox issue \<noteq> None"
  shows "\<exists>m \<in> set (placedMarkers p s).
            mediaMarker (isVideo p) (issues p) (selectedIssueId p) (hoveredMarkerId s)
              (currentTime s) issue = Some m"
proof -
  let ?f = "mediaMarker (isVideo p) (issues p) (selectedIssueId p) (hoveredMarkerId s)
              (currentTime s)"
  have box: "issue \<in> set (filter hasBox (issues p))"
    using assms by (simp add: hasBox_def)
  have "?f issue \<noteq> None"
    using assms(1,4) by (simp only: media_image_iff) simp
  then obtain m where "?f issue = Some m" by blast
  with box assms(2) show ?thesis
    by (auto simp: placed_media set_map_filter)
qed

theorem image_markers_unconditional_witness:
  "\<not> isVideo imageProps \<and> \<not> isDoc imageProps \<and> issue_z \<in> set (issues imageProps) \<and>
   boundingBox issue_z \<noteq> None \<and>
   (\<exists>m \<in> set (placedMarkers imageProps viewState0).
      mediaMarker (isVideo imageProps) (issues imageProps) (selectedIssueId imageProps)
        (hoveredMarkerId viewState0) (currentTime viewState0) issue_z = Some m)"
proof -
  have v: "\<not> isVideo imageProps" and d: "\<not> isDoc imageProps"
    by (simp_all add: mode_defs imageProps_def)
  have z: "issue_z \<in> set (issues imageProps)" "boundingBox issue_z \<noteq> None"
    by (simp_all add: imageProps_def issue_z_def)
  from image_markers_unconditional [OF v d z, of viewState0] v d z show ?thesis by blast
qed

section \<open>Selection on a carousel\<close>

text \<open>
  Claim C9: on a carousel (a PDF or a slide deck), two renderings that differ only in the
  selected issue draw the same markers on every page: the same issues, at the same places
  and with the same badges. The selection changes the styling of a marker only.
\<close>

theorem carousel_selection_only_styles:
  assumes "isDoc p" and "useCarousel p"
  shows "map (map (\<lambda>m. m\<lparr>isSelected := False\<rparr>))
           (annotationLayers (p\<lparr>selectedIssueId := sel'\<rparr>) s) =
         map (map (\<lambda>m. m\<lparr>isSelected := False\<rparr>)) (annotationLayers p s) \<and>
         map (map key) (annotationLayers (p\<lparr>selectedIssueId := sel'\<rparr>) s) =
         map (map key) (annotationLayers p s)"
proof -
  have 1: "map (map (\<lambda>m. m\<lparr>isSelected := False\<rparr>))
             (annotationLayers (p\<lparr>selectedIssueId := sel'\<rparr>) s) =
           map (map (\<lambda>m. m\<lparr>isSelected := False\<rparr>)) (annotationLayers p s)"
    using assms
    by (simp add: annotationLayers_def map_map_filter mode_select
        pdf_unselect [of _ sel' _ _ _ "selectedIssueId p"]
        slide_unselect [of _ sel' _ _ _ "selectedIssueId p"])
  have "map (map key) (map (map (\<lambda>m. m\<lparr>isSelected := False\<rparr>))
          (annotationLayers (p\<lparr>selectedIssueId := sel'\<rparr>) s)) =
        map (map key) (map (map (\<lambda>m. m\<lparr>isSelected := False\<rparr>)) (annotationLayers p s))"
    by (simp only: 1)
  then have "map (map key) (annotationLayers (p\<lparr>selectedIssueId := sel'\<rparr>) s) =
         map (map key) (annotationLayers p s)"
    by (simp add: comp_def)
  with 1 show ?thesis by simp
qed

theorem carousel_selection_only_styles_witness:
  "isDoc pdfProps \<and> useCarousel pdfProps \<and>
   map (map key) (annotationLayers (pdfProps\<lparr>selectedIssueId := Some ''b''\<rparr>) viewState0) =
     [[''a'', ''z''], [''b''], []] \<and>
   map (map key) (annotationLayers pdfProps viewState0) = [[''a'', ''z''], [''b''], []]"
proof -
  have d: "isDoc pdfProps" and c: "useCarousel pdfProps"
    by (simp_all add: mode_defs pdfProps_def)
  have k: "map (map key) (annotationLayers pdfProps viewState0) = [[''a'', ''z''], [''b''], []]"
    by (simp add: annotationLayers_def mode_defs pdfProps_def viewState0_def
      issue_a_def issue_b_def issue_c_def issue_z_def box_a_def box_b_def box_out_def
      List.map_filter_simps pdfPageMarker_def truthy_int_def upt_rec)
  from carousel_selection_only_styles [OF d c, of "Some ''b''" viewState0] k d c
  show ?thesis by simp
qed

section \<open>Ticks on the seek bar\<close>

text \<open>
  Claim C10: on a video (rendered with the player), every issue of the list whose
  timestamp is defined has a tick on the seek bar, with or without a bounding box, at
  \<open>timestamp / duration * 100\<close> percent of the width of the bar, where a duration of 0 is
  replaced by 1. The ticks do not depend on the playback time.
\<close>

theorem timeline_tick_position:
  assumes "isVideo p" and "\<not> isDoc p" and "issue \<in> set (issues p)"
    and "timestamp issue = Some ts"
  shows "(\<exists>t \<in> set (timelineMarkers p s).
            timelineMarker (duration s) (hoveredMarkerId s) issue = Some t \<and>
            tick_key t = issue_id issue \<and>
            tick_left t = (ts / (if duration s = 0 then 1 else duration s)) * 100) \<and>
         timelineMarkers p (s\<lparr>currentTime := now'\<rparr>) = timelineMarkers p s"
proof -
  let ?t = "\<lparr>tick_key = issue_id issue,
             tick_left = (ts / (if duration s = 0 then 1 else duration s)) * 100,
             tick_tooltip = (hoveredMarkerId s = Some (issue_id issue))\<rparr>"
  have made: "timelineMarker (duration s) (hoveredMarkerId s) issue = Some ?t"
    using assms(4) by (simp add: timelineMarker_def)
  have "timelineMarkers p s =
          List.map_filter (timelineMarker (duration s) (hoveredMarkerId s)) (issues p)"
    using assms(1,2) by (simp add: timelineMarkers_def)
  with made assms(3) have "?t \<in> set (timelineMarkers p s)"
    by (auto simp: set_map_filter)
  with made have "\<exists>t \<in> set (timelineMarkers p s).
            timelineMarker (duration s) (hoveredMarkerId s) issue = Some t \<and>
            tick_key t = issue_id issue \<and>
            tick_left t = (ts / (if duration s = 0 then 1 else duration s)) * 100"
    by (intro bexI [of _ ?t]) simp_all
  moreover have "timelineMarkers p (s\<lparr>currentTime := now'\<rparr>) = timelineMarkers p s"
    by (simp add: timelineMarkers_def)
  ultimately show ?thesis by blast
qed

theorem timeline_tick_position_witness:
  "isVideo videoProps \<and> \<not> isDoc videoProps \<and> issue_c \<in> set (issues videoProps) \<and>
   timestamp issue_c = Some 10 \<and> boundingBox issue_c = None \<and>
   (\<exists>t \<in> set (timelineMarkers videoProps viewStateStart).
      tick_key t = ''c'' \<and> tick_left t = 1000) \<and>
   (\<exists>t \<in> set (timelineMarkers videoProps viewState0).
      tick_key t = ''c'' \<and> tick_left t * 3 = 50)"
proof -
  have v: "isVideo videoProps" and d: "\<not> isDoc videoProps"
    by (simp_all add: mode_defs videoProps_def)
  have c: "issue_c \<in> set (issues videoProps)" "timestamp issue_c = Some 10"
    and b: "boundingBox issue_c = None"
    by (simp_all add: videoProps_def issue_c_def)
  from timeline_tick_position [OF v d c, of viewStateStart]
  have 1: "\<exists>t \<in> set (timelineMarkers videoProps viewStateStart).
      tick_key t = ''c'' \<and> tick_left t = 1000"
    by (auto simp: viewStateStart_def issue_c_def)
  from timeline_tick_position [OF v d c, of viewState0]
  have 2: "\<exists>t \<in> set (timelineMarkers videoProps viewState0).
      tick_key t = ''c'' \<and> tick_left t * 3 = 50"
    by (auto simp: viewState0_def issue_c_def)
  from 1 2 v d c b show ?thesis by blast
qed

end
